theory Spec2Isabelle
  imports Complex_Main "HOL-Library.Word"
begin

section \<open>Common data: integers and errors\<close>

text \<open>
  \<open>int64_t\<close> values are 64-bit words (arithmetic wraps, as the compiled code does).
  A failed \<open>TORCH_CHECK\<close> carries its message, a failed \<open>TORCH_INTERNAL_ASSERT\<close> is
  \<open>InternalAssert\<close>, and an operation the C++ leaves undefined (reading outside a
  container, the front of an empty queue, an empty optional, a division by zero) is
  \<open>UndefinedBehaviour\<close>. A function that can fail returns \<open>error + 'a\<close>.
\<close>

type_synonym int64 = "64 word"

datatype error =
    TorchCheck string
  | InternalAssert
  | UndefinedBehaviour

definition index :: "'a list \<Rightarrow> int \<Rightarrow> error + 'a" where
  "index xs i = (if 0 \<le> i \<and> i < int (length xs) then Inr (xs ! nat i) else Inl UndefinedBehaviour)"

definition bindE :: "error + 'a \<Rightarrow> ('a \<Rightarrow> error + 'b) \<Rightarrow> error + 'b" where
  "bindE m f = (case m of Inl e \<Rightarrow> Inl e | Inr x \<Rightarrow> f x)"

section \<open>interface.cpp: enabling the fuser\<close>

text \<open>
  What \<open>NVFuserEnabler\<close> reads from outside: the two environment variables (read once
  and cached in function-local statics, so they are fixed here), the three conditions of
  \<open>nvfuserCanBeEnabled\<close> and the two build flags.
\<close>

record environment =
  PYTORCH_JIT_ENABLE_NVFUSER :: "string option"
  PYTORCH_JIT_USE_NNC_NOT_NVFUSER :: "string option"
  hasCUDA :: bool
  isRegistered :: bool
  getExecutorMode :: bool
  USE_ROCM :: bool
  FBCODE_CAFFE2 :: bool

text \<open>
  The object's fields (the trailing underscore of the C++ names is dropped).
  \<open>enabled_check_flag\<close> is the \<open>std::once_flag\<close>: \<open>True\<close> once the callable of
  \<open>std::call_once\<close> has returned normally.
\<close>

record NVFuserEnabler =
  runtime_assigned_fuser_enabled :: "bool option"
  enabled_check_flag :: bool

definition nvfuser_enabler :: NVFuserEnabler where
  "nvfuser_enabler = \<lparr>runtime_assigned_fuser_enabled = None, enabled_check_flag = False\<rparr>"

definition nvfuserCanBeEnabled :: "environment \<Rightarrow> bool" where
  "nvfuserCanBeEnabled env =
     (if USE_ROCM env then False
      else hasCUDA env \<and> isRegistered env \<and> getExecutorMode env)"

definition assertFuserCanBeEnabled :: "environment \<Rightarrow> bool \<Rightarrow> error + unit" where
  "assertFuserCanBeEnabled env is_enabled =
     (if \<not> is_enabled then Inr ()
      else if nvfuserCanBeEnabled env then Inr ()
      else Inl (TorchCheck ''Running CUDA fuser is only supported on CUDA builds.''))"

definition getFuserEnabledEnvVar :: "environment \<Rightarrow> bool option" where
  "getFuserEnabledEnvVar env =
     (case PYTORCH_JIT_ENABLE_NVFUSER env of
        None \<Rightarrow> None
      | Some enable \<Rightarrow> if enable = ''0'' \<or> enable = ''OFF'' then Some False else Some True)"

definition getCachedFuserEnabledEnvVar :: "environment \<Rightarrow> bool option" where
  "getCachedFuserEnabledEnvVar env = getFuserEnabledEnvVar env"

definition getNNCNotNVFuser :: "environment \<Rightarrow> bool" where
  "getNNCNotNVFuser env =
     (case PYTORCH_JIT_USE_NNC_NOT_NVFUSER env of
        None \<Rightarrow> False
      | Some e \<Rightarrow> if e = ''1'' \<or> e = ''ON'' then True else False)"

definition getCachedNNCNotNVFuser :: "environment \<Rightarrow> bool" where
  "getCachedNNCNotNVFuser env = getNNCNotNVFuser env"

text \<open>
  \<open>std::call_once\<close>: the callable runs only while the flag is unset; when it throws, the
  exception leaves \<open>isEnabledImpl\<close> and the flag stays unset. Every function on the
  object returns the object as it is after the call, also when the call throws.
\<close>

definition enabled_check :: "environment \<Rightarrow> NVFuserEnabler \<Rightarrow> (error + unit) \<times> NVFuserEnabler" where
  "enabled_check env s =
     (if enabled_check_flag s then (Inr (), s)
      else
        (case (if runtime_assigned_fuser_enabled s = None \<and> getCachedFuserEnabledEnvVar env \<noteq> None
               then assertFuserCanBeEnabled env (the (getCachedFuserEnabledEnvVar env))
               else Inr ()) of
           Inl e \<Rightarrow> (Inl e, s)
         | Inr _ \<Rightarrow> (Inr (), s\<lparr>enabled_check_flag := True\<rparr>)))"

definition isEnabledImpl :: "environment \<Rightarrow> NVFuserEnabler \<Rightarrow> (error + bool) \<times> NVFuserEnabler" where
  "isEnabledImpl env s =
     (case enabled_check env s of
        (Inl e, s1) \<Rightarrow> (Inl e, s1)
      | (Inr _, s1) \<Rightarrow>
          if getCachedNNCNotNVFuser env then (Inr False, s1)
          else if runtime_assigned_fuser_enabled s1 \<noteq> None
            then (Inr (the (runtime_assigned_fuser_enabled s1)), s1)
          else if getCachedFuserEnabledEnvVar env \<noteq> None
            then (Inr (the (getCachedFuserEnabledEnvVar env)), s1)
          else if FBCODE_CAFFE2 env then (Inr False, s1)
          else (Inr (nvfuserCanBeEnabled env), s1))"

definition setEnabled :: "environment \<Rightarrow> bool \<Rightarrow> NVFuserEnabler \<Rightarrow> (error + bool) \<times> NVFuserEnabler" where
  "setEnabled env is_enabled s =
     (case assertFuserCanBeEnabled env is_enabled of
        Inl e \<Rightarrow> (Inl e, s)
      | Inr _ \<Rightarrow>
          (case isEnabledImpl env s of
             (Inl e, s1) \<Rightarrow> (Inl e, s1)
           | (Inr old_value, s1) \<Rightarrow>
               (Inr old_value, s1\<lparr>runtime_assigned_fuser_enabled := Some is_enabled\<rparr>)))"

definition isEnabled :: "environment \<Rightarrow> NVFuserEnabler \<Rightarrow> (error + bool) \<times> NVFuserEnabler" where
  "isEnabled env s = isEnabledImpl env s"

section \<open>interface.cpp: the fuser interface\<close>

text \<open>
  \<open>CudaFuserInterface\<close> holds function pointers; a null pointer is \<open>None\<close>. What a
  registered function does is its own business: it is a function on the state it works
  on (\<open>'w\<close> for the compiler's state, the stack, the graph).
\<close>

record ('node, 'w, 'stack, 'graph) CudaFuserInterface =
  fn_compile_n :: "('node \<Rightarrow> 'w \<Rightarrow> 'w) option"
  fn_run_n_s :: "('node \<Rightarrow> 'stack \<Rightarrow> 'stack) option"
  fn_fuse_graph :: "('graph \<Rightarrow> 'graph) option"

definition compileFusionGroup ::
  "('node, 'w, 'stack, 'graph) CudaFuserInterface \<Rightarrow> 'node \<Rightarrow> 'w \<Rightarrow> error + 'w" where
  "compileFusionGroup fi fusion_node w =
     (case fn_compile_n fi of
        None \<Rightarrow> Inl (TorchCheck ''Running the CUDA fuser requires a CUDA build.'')
      | Some f \<Rightarrow> Inr (f fusion_node w))"

definition runFusionGroup ::
  "('node, 'w, 'stack, 'graph) CudaFuserInterface \<Rightarrow> 'node \<Rightarrow> 'stack \<Rightarrow> error + 'stack" where
  "runFusionGroup fi fusion_node stack =
     (case fn_run_n_s fi of
        None \<Rightarrow> Inl (TorchCheck ''Running the CUDA fuser requires a CUDA build.'')
      | Some f \<Rightarrow> Inr (f fusion_node stack))"

definition fuseGraph ::
  "environment \<Rightarrow> ('node, 'w, 'stack, 'graph) CudaFuserInterface \<Rightarrow> 'graph \<Rightarrow> NVFuserEnabler
     \<Rightarrow> (error + 'graph) \<times> NVFuserEnabler" where
  "fuseGraph env fi graph s =
     (case isEnabled env s of
        (Inl e, s1) \<Rightarrow> (Inl e, s1)
      | (Inr enabled, s1) \<Rightarrow>
          if \<not> enabled then (Inr graph, s1)
          else (case fn_fuse_graph fi of
                  None \<Rightarrow> (Inl (TorchCheck ''Running the CUDA fuser requires a CUDA build.''), s1)
                | Some f \<Rightarrow> (Inr (f graph), s1)))"

section \<open>interface.cpp: the type guard \<open>complyWith\<close>\<close>

text \<open>
  The tensor and the profiled tensor type, with the fields \<open>complyWith\<close> reads. The
  host's classes are not part of the sources at hand; the records list what the
  accessors return. In a \<open>TensorType\<close> every property may be unknown (\<open>None\<close>);
  \<open>sizes\<close> and \<open>stride_properties\<close> are indexed per dimension and each entry may be
  unknown as well.
\<close>

datatype ScalarType = kByte | kChar | kShort | kInt | kLong | kHalf | kFloat | kDouble | kBool | kBFloat16

datatype DeviceType = kCPU | kCUDA

datatype Device = Device DeviceType int

record Tensor =
  t_sizes :: "int64 list"
  t_strides :: "int64 list"
  scalar_type :: ScalarType
  device :: Device
  requires_grad :: bool













section \<open>interface.cpp: the interpreter stack and the guard operators\<close>

text \<open>
  The values the operators of this file take from the stack. The stack is a
  \<open>std::vector\<close> whose top is its last element.
\<close>

datatype IValue =
    INone
  | IBool bool
  | IInt int64
  | IIntList "int64 list"
  | ITensor Tensor

type_synonym Stack = "IValue list"



definition push :: "Stack \<Rightarrow> IValue \<Rightarrow> Stack" where
  "push stack v = stack @ [v]"

definition pop :: "Stack \<Rightarrow> error + (IValue \<times> Stack)" where
  "pop stack = (if stack = [] then Inl UndefinedBehaviour else Inr (last stack, butlast stack))"

definition toIntList :: "IValue \<Rightarrow> error + int64 list" where
  "toIntList v = (case v of IIntList xs \<Rightarrow> Inr xs | _ \<Rightarrow> Inl InternalAssert)"

















section \<open>interface.cpp: the operator \<open>prim::infer_squeeze_size(int[] a) -> int[]\<close>\<close>

text \<open>
  \<open>size.erase(it)\<close> of a \<open>std::vector\<close>: the element at the iterator is removed and
  the later ones move down by one.
\<close>

definition erase :: "'a list \<Rightarrow> nat \<Rightarrow> 'a list" where
  "erase xs i = take i xs @ drop (Suc i) xs"

text \<open>
  The loop \<open>for (it = size.begin(); it != size.end(); it++)\<close>. The iterator is its
  signed offset from \<open>size.begin()\<close>: \<open>pre = it - 1\<close> is the offset \<open>-1\<close> when the
  first element is erased, and the increment of the loop header brings it back to \<open>0\<close>
  before anything is read through it.
\<close>

function squeeze_loop :: "int \<Rightarrow> int64 list \<Rightarrow> error + int64 list" where
  "squeeze_loop it sz =
     (if it = int (length sz) then Inr sz
      else if it < 0 \<or> int (length sz) < it then Inl UndefinedBehaviour
      else if sz ! nat it = 1
        then (let pre = it - 1; sz' = erase sz (nat it); it' = pre
              in squeeze_loop (it' + 1) sz')
        else squeeze_loop (it + 1) sz)"
  by pat_completeness auto
termination
  by (relation "measure (\<lambda>(it, sz). nat (int (length sz) - it))")
     (auto simp: erase_def)

declare squeeze_loop.simps [simp del]

definition infer_squeeze_size :: "Stack \<Rightarrow> error + Stack" where
  "infer_squeeze_size stack =
     bindE (pop stack) (\<lambda>(v, stack).
     bindE (toIntList v) (\<lambda>sz.
     bindE (squeeze_loop 0 sz) (\<lambda>sz. Inr (push stack (IIntList sz)))))"

section \<open>SoftMaxKernel.cpp: memory, the vectorized helpers, the parallel loop\<close>

text \<open>
  A \<open>scalar_t*\<close> is an array with no bounds: a function from the element offset to the
  value. The arithmetic of \<open>scalar_t\<close> is that of the real numbers, so rounding,
  overflow, infinities and NaN are outside this model; sizes and offsets are natural
  numbers.
\<close>

type_synonym array = "nat \<Rightarrow> real"

text \<open>
  Modelled from the spec: the host's vectorized math helpers \<open>vec::map\<close>, \<open>vec::map2\<close>,
  \<open>vec::reduce_all\<close>, \<open>vec::map_reduce_all\<close> and \<open>vec::map2_reduce_all\<close>
  (\<open>ATen/cpu/vec/functional.h\<close>) are not among the sources. \<open>map\<close> writes
  \<open>f (in[k])\<close> to \<open>out[k]\<close> for the \<open>n\<close> elements from the two pointers, \<open>reduce_all\<close>
  combines the \<open>n\<close> elements from the pointer with the binary function. A pointer is an
  array and an offset.
\<close>

definition vec_map :: "('a \<Rightarrow> 'a) \<Rightarrow> (nat \<Rightarrow> 'a) \<Rightarrow> nat \<Rightarrow> (nat \<Rightarrow> 'a) \<Rightarrow> nat \<Rightarrow> nat \<Rightarrow> (nat \<Rightarrow> 'a)" where
  "vec_map vec_fun output_data o_off input_data i_off n =
     (\<lambda>k. if o_off \<le> k \<and> k < o_off + n then vec_fun (input_data (i_off + (k - o_off)))
          else output_data k)"

definition vec_map2 ::
  "(real \<Rightarrow> real \<Rightarrow> real) \<Rightarrow> array \<Rightarrow> nat \<Rightarrow> array \<Rightarrow> nat \<Rightarrow> array \<Rightarrow> nat \<Rightarrow> nat \<Rightarrow> array" where
  "vec_map2 vec_fun output_data o_off input_data i_off input_data2 i_off2 n =
     (\<lambda>k. if o_off \<le> k \<and> k < o_off + n
          then vec_fun (input_data (i_off + (k - o_off))) (input_data2 (i_off2 + (k - o_off)))
          else output_data k)"

definition reduce_all :: "(real \<Rightarrow> real \<Rightarrow> real) \<Rightarrow> array \<Rightarrow> nat \<Rightarrow> nat \<Rightarrow> real" where
  "reduce_all vec_fun data off n =
     foldl vec_fun (data off) (map (\<lambda>k. data (off + k)) [1..<n])"

definition map_reduce_all ::
  "(real \<Rightarrow> real) \<Rightarrow> (real \<Rightarrow> real \<Rightarrow> real) \<Rightarrow> array \<Rightarrow> nat \<Rightarrow> nat \<Rightarrow> real" where
  "map_reduce_all map_f red_f data off n =
     foldl red_f (map_f (data off)) (map (\<lambda>k. map_f (data (off + k))) [1..<n])"

definition map2_reduce_all ::
  "(real \<Rightarrow> real \<Rightarrow> real) \<Rightarrow> (real \<Rightarrow> real \<Rightarrow> real) \<Rightarrow> array \<Rightarrow> nat \<Rightarrow> array \<Rightarrow> nat \<Rightarrow> nat \<Rightarrow> real" where
  "map2_reduce_all map_f red_f data off data2 off2 n =
     foldl red_f (map_f (data off) (data2 off2))
       (map (\<lambda>k. map_f (data (off + k)) (data2 (off2 + k))) [1..<n])"

text \<open>
  Modelled from the spec: the host's parallel-for scheduler \<open>at::parallel_for\<close>
  (\<open>ATen/Parallel.h\<close>) is not among the sources. It cuts \<open>[begin, end)\<close> into
  consecutive non-empty ranges and calls the body on each; which ranges is up to the
  host, so the cut is the parameter \<open>schedule\<close>. The bodies of this file write
  disjoint parts of the output, and the model runs them one after the other.
\<close>

fun is_partition :: "nat \<Rightarrow> nat \<Rightarrow> (nat \<times> nat) list \<Rightarrow> bool" where
  "is_partition b e [] = (e \<le> b)"
| "is_partition b e ((b', e') # schedule) = (b' = b \<and> b < e' \<and> e' \<le> e \<and> is_partition e' e schedule)"

definition parallel_for ::
  "(nat \<times> nat) list \<Rightarrow> nat \<Rightarrow> nat \<Rightarrow> nat \<Rightarrow> (nat \<Rightarrow> nat \<Rightarrow> 's \<Rightarrow> 's) \<Rightarrow> 's \<Rightarrow> 's" where
  "parallel_for schedule begin end grain_size f s = foldl (\<lambda>s (b, e). f b e s) s schedule"

text \<open>\<open>internal::GRAIN_SIZE\<close> of the host.\<close>

definition GRAIN_SIZE :: nat where
  "GRAIN_SIZE = 32768"

section \<open>SoftMaxKernel.cpp: the kernels over the last dimension\<close>



definition backward_lastdim_row :: "bool \<Rightarrow> array \<Rightarrow> array \<Rightarrow> nat \<Rightarrow> nat \<Rightarrow> array \<Rightarrow> array" where
  "backward_lastdim_row log_softmax grad_data_base output_data_base dim_size i grad_input_data_base =
     (let off = i * dim_size;
          sum = (if log_softmax then reduce_all (+) grad_data_base off dim_size
                 else map2_reduce_all (\<lambda>x y. x * y) (+) grad_data_base off output_data_base off dim_size)
      in if log_softmax
         then vec_map2 (\<lambda>x y. x - exp y * sum) grad_input_data_base off
                grad_data_base off output_data_base off dim_size
         else vec_map2 (\<lambda>x y. (x - sum) * y) grad_input_data_base off
                grad_data_base off output_data_base off dim_size)"

definition vec_host_softmax_backward_lastdim ::
  "bool \<Rightarrow> (nat \<times> nat) list \<Rightarrow> array \<Rightarrow> array \<Rightarrow> array \<Rightarrow> nat \<Rightarrow> nat \<Rightarrow> error + array" where
  "vec_host_softmax_backward_lastdim log_softmax schedule grad_input_data_base grad_data_base
       output_data_base outer_size dim_size =
     (if 16 * dim_size = 0 then Inl UndefinedBehaviour
      else
        (let grain_size = GRAIN_SIZE div (16 * dim_size);
             grain_size = (if grain_size < 1 then 1 else grain_size)
         in Inr (parallel_for schedule 0 outer_size grain_size
                  (\<lambda>begin end grad_input.
                     foldl (\<lambda>grad_input i.
                              backward_lastdim_row log_softmax grad_data_base output_data_base dim_size i grad_input)
                       grad_input [begin..<end])
                  grad_input_data_base)))"

text \<open>
  \<open>vec_host_softmax_backward_lastdim::apply\<close>: the rows are the products of all sizes
  but the last, the row length is the last size. \<open>grad.size(-1)\<close> of a tensor without
  dimensions fails the host's index check.
\<close>

definition vec_host_softmax_backward_lastdim_apply ::
  "bool \<Rightarrow> (nat \<times> nat) list \<Rightarrow> nat list \<Rightarrow> array \<Rightarrow> array \<Rightarrow> array \<Rightarrow> error + array" where
  "vec_host_softmax_backward_lastdim_apply LogSoftMax schedule grad_sizes grad_input grad output =
     (if grad_sizes = [] then Inl (TorchCheck ''Dimension out of range'')
      else
        (let dim_size = last grad_sizes;
             outer_size = foldl (\<lambda>outer_size s. outer_size * s) 1 (butlast grad_sizes)
         in vec_host_softmax_backward_lastdim LogSoftMax schedule grad_input grad output outer_size dim_size))"

section \<open>SoftMaxKernel.cpp: the softmax kernel over an inner dimension\<close>

text \<open>
  Modelled from the spec: the host's \<open>vec::Vectorized<T>\<close> (\<open>ATen/cpu/vec/vec.h\<close>) is
  not among the sources. A vector is the list of its lanes (of reals here, of the values
  of the type \<open>float\<close> below for the log-softmax kernel); \<open>loadu\<close> reads
  \<open>Vec::size()\<close> consecutive elements, \<open>store\<close> writes the lanes to consecutive
  elements, and the arithmetic works lane by lane.
\<close>

type_synonym Vec = "real list"

definition loadu :: "(nat \<Rightarrow> 'a) \<Rightarrow> nat \<Rightarrow> nat \<Rightarrow> 'a list" where
  "loadu data off vec_size = map (\<lambda>l. data (off + l)) [0..<vec_size]"

definition store :: "'a list \<Rightarrow> (nat \<Rightarrow> 'a) \<Rightarrow> nat \<Rightarrow> (nat \<Rightarrow> 'a)" where
  "store v data off = (\<lambda>k. if off \<le> k \<and> k < off + length v then v ! (k - off) else data k)"

definition vec_maximum :: "Vec \<Rightarrow> Vec \<Rightarrow> Vec" where
  "vec_maximum a b = map2 max a b"

definition vec_sub :: "Vec \<Rightarrow> Vec \<Rightarrow> Vec" where
  "vec_sub a b = map2 (-) a b"

definition vec_add :: "Vec \<Rightarrow> Vec \<Rightarrow> Vec" where
  "vec_add a b = map2 (+) a b"

definition vec_div :: "Vec \<Rightarrow> Vec \<Rightarrow> Vec" where
  "vec_div a b = map2 (/) a b"

definition vec_exp :: "Vec \<Rightarrow> Vec" where
  "vec_exp a = map exp a"












section \<open>SoftMaxKernel.cpp: the softmax kernel over an inner dimension, \<open>BFloat16\<close>\<close>

text \<open>
  Modelled from the spec: the host's conversions between \<open>Vectorized<BFloat16>\<close> and
  pairs of \<open>Vectorized<float>\<close> are not among the sources. A \<open>BFloat16\<close> vector has
  twice the lanes of a \<open>float\<close> vector; \<open>convert_bfloat16_float\<close> gives its lower and
  its upper half, \<open>convert_float_bfloat16\<close> joins two halves. Every \<open>BFloat16\<close> is a
  \<open>float\<close>, so the conversion to \<open>float\<close> changes no value; the conversion to
  \<open>BFloat16\<close> rounds, and the rounding function is the parameter \<open>to_bf16\<close> of the
  kernel.
\<close>

definition convert_bfloat16_float :: "nat \<Rightarrow> 'a list \<Rightarrow> 'a list \<times> 'a list" where
  "convert_bfloat16_float float_vec_size v = (take float_vec_size v, drop float_vec_size v)"

definition convert_float_bfloat16 :: "('a \<Rightarrow> 'a) \<Rightarrow> 'a list \<Rightarrow> 'a list \<Rightarrow> 'a list" where
  "convert_float_bfloat16 to_bf16 a b = map to_bf16 (a @ b)"

text \<open>
  The vectorized branch. The state of the task is the output and the two \<open>float\<close>
  buffers \<open>temp_vec_input_data\<close> and \<open>temp_vec_output_data\<close>. \<open>fs\<close> is the number of
  lanes of a \<open>float\<close> vector, \<open>vectorized_step\<close> that of a \<open>BFloat16\<close> vector.
\<close>

definition softmax_bf16_max_body ::
  "nat \<Rightarrow> nat \<Rightarrow> array \<Rightarrow> nat \<Rightarrow> nat \<Rightarrow> Vec \<times> Vec \<times> array \<Rightarrow> nat \<Rightarrow> Vec \<times> Vec \<times> array" where
  "softmax_bf16_max_body fs vectorized_step input_data off dim_stride state d =
     (case state of (max_vec_o1, max_vec_o2, temp_vec_input_data) \<Rightarrow>
        (let input_vec_bf16 = loadu input_data (off + d * dim_stride) vectorized_step;
             convert_result = convert_bfloat16_float fs input_vec_bf16;
             max_vec_o1 = vec_maximum max_vec_o1 (fst convert_result);
             max_vec_o2 = vec_maximum max_vec_o2 (snd convert_result);
             temp_vec_input_data = store (fst convert_result) temp_vec_input_data (d * vectorized_step * 2);
             temp_vec_input_data = store (snd convert_result) temp_vec_input_data
                                     (d * vectorized_step * 2 + vectorized_step)
         in (max_vec_o1, max_vec_o2, temp_vec_input_data)))"

definition softmax_bf16_sum_body ::
  "nat \<Rightarrow> nat \<Rightarrow> Vec \<Rightarrow> Vec \<Rightarrow> array \<Rightarrow> array \<times> Vec \<times> Vec \<Rightarrow> nat \<Rightarrow> array \<times> Vec \<times> Vec" where
  "softmax_bf16_sum_body fs vectorized_step max_vec_o1 max_vec_o2 temp_vec_input_data state d =
     (case state of (temp_vec_output_data, sum_vec_o1, sum_vec_o2) \<Rightarrow>
        (let output_vec_o1 = loadu temp_vec_input_data (d * vectorized_step * 2) fs;
             output_vec_o2 = loadu temp_vec_input_data (d * vectorized_step * 2 + vectorized_step) fs;
             output_vec_o1 = vec_exp (vec_sub output_vec_o1 max_vec_o1);
             output_vec_o2 = vec_exp (vec_sub output_vec_o2 max_vec_o2);
             temp_vec_output_data = store output_vec_o1 temp_vec_output_data (d * vectorized_step * 2);
             temp_vec_output_data = store output_vec_o2 temp_vec_output_data
                                      (d * vectorized_step * 2 + vectorized_step)
         in (temp_vec_output_data, vec_add sum_vec_o1 output_vec_o1, vec_add sum_vec_o2 output_vec_o2)))"

definition softmax_bf16_unify_body ::
  "(real \<Rightarrow> real) \<Rightarrow> nat \<Rightarrow> nat \<Rightarrow> nat \<Rightarrow> nat \<Rightarrow> Vec \<Rightarrow> Vec \<Rightarrow> array \<Rightarrow> array \<Rightarrow> nat \<Rightarrow> array" where
  "softmax_bf16_unify_body to_bf16 fs vectorized_step off dim_stride sum_vec_o1 sum_vec_o2
       temp_vec_output_data output_data d =
     (let output_vec_o1 = loadu temp_vec_output_data (d * vectorized_step * 2) fs;
          output_vec_o2 = loadu temp_vec_output_data (d * vectorized_step * 2 + vectorized_step) fs;
          output_vec_o1 = vec_div output_vec_o1 sum_vec_o1;
          output_vec_o2 = vec_div output_vec_o2 sum_vec_o2;
          output_vec_bf16 = convert_float_bfloat16 to_bf16 output_vec_o1 output_vec_o2
      in store output_vec_bf16 output_data (off + d * dim_stride))"

definition softmax_bf16_vectorized ::
  "(real \<Rightarrow> real) \<Rightarrow> nat \<Rightarrow> nat \<Rightarrow> array \<Rightarrow> nat \<Rightarrow> nat \<Rightarrow> nat \<Rightarrow> array \<times> array \<times> array
     \<Rightarrow> array \<times> array \<times> array" where
  "softmax_bf16_vectorized to_bf16 fs vectorized_step input_data off dim_stride dim_size state =
     (case state of (output_data, temp_vec_input_data, temp_vec_output_data) \<Rightarrow>
        (let max_vec_bf16 = loadu input_data off vectorized_step;
             convert_result = convert_bfloat16_float fs max_vec_bf16;
             max_vec_o1 = fst convert_result;
             max_vec_o2 = snd convert_result;
             temp_vec_input_data = store (fst convert_result) temp_vec_input_data 0;
             temp_vec_input_data = store (snd convert_result) temp_vec_input_data vectorized_step;
             (max_vec_o1, max_vec_o2, temp_vec_input_data) =
                foldl (softmax_bf16_max_body fs vectorized_step input_data off dim_stride)
                  (max_vec_o1, max_vec_o2, temp_vec_input_data) [1..<dim_size];
             (temp_vec_output_data, sum_vec_o1, sum_vec_o2) =
                foldl (softmax_bf16_sum_body fs vectorized_step max_vec_o1 max_vec_o2 temp_vec_input_data)
                  (temp_vec_output_data, replicate fs 0, replicate fs 0) [0..<dim_size];
             output_data =
                foldl (softmax_bf16_unify_body to_bf16 fs vectorized_step off dim_stride sum_vec_o1 sum_vec_o2
                         temp_vec_output_data)
                  output_data [0..<dim_size]
         in (output_data, temp_vec_input_data, temp_vec_output_data)))"







section \<open>SoftMaxKernel.cpp: the log-softmax kernel over an inner dimension, \<open>BFloat16\<close>\<close>

text \<open>
  This kernel starts its running maximum at minus infinity, so its values are the reals
  with the two infinities and NaN. Finite results are exact; the infinities and NaN follow
  the rules of IEEE arithmetic. \<open>FLT_MAX\<close> is the largest finite \<open>float\<close>.
\<close>

datatype float = Finite real | PosInf | NegInf | NaN

definition FLT_MAX :: real where
  "FLT_MAX = (2 ^ 24 - 1) * 2 ^ 104"

fun fgt :: "float \<Rightarrow> float \<Rightarrow> bool" where
  "fgt (Finite a) (Finite b) = (b < a)"
| "fgt (Finite a) NegInf = True"
| "fgt PosInf (Finite b) = True"
| "fgt PosInf NegInf = True"
| "fgt a b = False"

fun fneg :: "float \<Rightarrow> float" where
  "fneg (Finite a) = Finite (- a)"
| "fneg PosInf = NegInf"
| "fneg NegInf = PosInf"
| "fneg NaN = NaN"

fun fadd :: "float \<Rightarrow> float \<Rightarrow> float" where
  "fadd (Finite a) (Finite b) = Finite (a + b)"
| "fadd NaN b = NaN"
| "fadd a NaN = NaN"
| "fadd PosInf NegInf = NaN"
| "fadd NegInf PosInf = NaN"
| "fadd PosInf b = PosInf"
| "fadd a PosInf = PosInf"
| "fadd NegInf b = NegInf"
| "fadd a NegInf = NegInf"

definition fsub :: "float \<Rightarrow> float \<Rightarrow> float" where
  "fsub a b = fadd a (fneg b)"

fun fexp :: "float \<Rightarrow> float" where
  "fexp (Finite a) = Finite (exp a)"
| "fexp PosInf = PosInf"
| "fexp NegInf = Finite 0"
| "fexp NaN = NaN"

fun flog :: "float \<Rightarrow> float" where
  "flog (Finite a) = (if 0 < a then Finite (ln a) else if a = 0 then NegInf else NaN)"
| "flog PosInf = PosInf"
| "flog NegInf = NaN"
| "flog NaN = NaN"

type_synonym farray = "nat \<Rightarrow> float"

type_synonym fVec = "float list"

definition blendv :: "fVec \<Rightarrow> fVec \<Rightarrow> bool list \<Rightarrow> fVec" where
  "blendv a b mask_vec = map (\<lambda>((x, y), m). if m then y else x) (zip (zip a b) mask_vec)"

definition fvec_gt :: "fVec \<Rightarrow> fVec \<Rightarrow> bool list" where
  "fvec_gt a b = map2 fgt a b"

definition fvec_sub :: "fVec \<Rightarrow> fVec \<Rightarrow> fVec" where
  "fvec_sub a b = map2 fsub a b"

definition fvec_add :: "fVec \<Rightarrow> fVec \<Rightarrow> fVec" where
  "fvec_add a b = map2 fadd a b"

definition fvec_exp :: "fVec \<Rightarrow> fVec" where
  "fvec_exp a = map fexp a"

text \<open>
  One block of the work: \<open>sz\<close> (the source's \<open>size\<close>) neighbouring slices that start at \<open>off\<close> in input and
  output. \<open>fs\<close> is \<open>fVec::size()\<close> and \<open>bVec::size()\<close> is twice that. A loop
  \<open>for (; d < size - (size % bVec::size()); d += bVec::size())\<close> runs \<open>size div bVec::size()\<close>
  times, the \<open>j\<close>-th time with \<open>d = j * bVec::size()\<close>; the loop after it takes the
  remaining \<open>d\<close> up to \<open>size\<close>.
\<close>

definition logsoftmax_bf16_init :: "nat \<Rightarrow> nat \<Rightarrow> farray \<times> farray \<Rightarrow> farray \<times> farray" where
  "logsoftmax_bf16_init fs sz buffers =
     (let bs = 2 * fs;
          zero_fvec = replicate fs (Finite 0);
          min_fvec = replicate fs NegInf;
          buffers =
            foldl (\<lambda>(input_max_data, tmp_sum_data) j.
                     (let d0 = j * bs
                      in (store min_fvec (store min_fvec input_max_data d0) (d0 + fs),
                          store zero_fvec (store zero_fvec tmp_sum_data d0) (d0 + fs))))
              buffers [0..<sz div bs]
      in foldl (\<lambda>(input_max_data, tmp_sum_data) d0.
                  (input_max_data (d0 := NegInf), tmp_sum_data (d0 := Finite 0)))
           buffers [sz - sz mod bs..<sz])"

text \<open>
  Computing the maximum, for one \<open>dim_idx\<close>. Both stores of the vector loop write
  \<open>max_fvec0\<close>, as the source has them.
\<close>

definition logsoftmax_bf16_max_dim ::
  "nat \<Rightarrow> nat \<Rightarrow> farray \<Rightarrow> nat \<Rightarrow> nat \<Rightarrow> farray \<times> farray \<Rightarrow> farray \<times> farray" where
  "logsoftmax_bf16_max_dim fs sz input_data_base input_ptr input_buffer_ptr buffers =
     (let bs = 2 * fs;
          buffers =
            foldl (\<lambda>(input_max_data, input_buffer_data) j.
                     (let d1 = j * bs;
                          data_bvec = loadu input_data_base (input_ptr + d1) bs;
                          (data_fvec0, data_fvec1) = convert_bfloat16_float fs data_bvec;
                          max_fvec0 = loadu input_max_data d1 fs;
                          max_fvec1 = loadu input_max_data (d1 + fs) fs;
                          max_fvec0 = blendv max_fvec0 data_fvec0 (fvec_gt data_fvec0 max_fvec0);
                          max_fvec1 = blendv max_fvec1 data_fvec1 (fvec_gt data_fvec1 max_fvec1);
                          input_max_data = store max_fvec0 input_max_data d1;
                          input_max_data = store max_fvec0 input_max_data (d1 + fs);
                          input_buffer_data = store data_fvec0 input_buffer_data (input_buffer_ptr + d1);
                          input_buffer_data = store data_fvec1 input_buffer_data (input_buffer_ptr + d1 + fs)
                      in (input_max_data, input_buffer_data)))
              buffers [0..<sz div bs]
      in foldl (\<lambda>(input_max_data, input_buffer_data) d1.
                  (let data_val = input_data_base (input_ptr + d1);
                       max_val = input_max_data d1
                   in (input_max_data (d1 := (if fgt data_val max_val then data_val else max_val)),
                       input_buffer_data (input_buffer_ptr + d1 := data_val))))
           buffers [sz - sz mod bs..<sz])"

definition logsoftmax_bf16_max ::
  "nat \<Rightarrow> nat \<Rightarrow> nat \<Rightarrow> nat \<Rightarrow> nat \<Rightarrow> farray \<Rightarrow> nat \<Rightarrow> farray \<times> farray \<Rightarrow> farray \<times> farray" where
  "logsoftmax_bf16_max fs CHUNK_SIZE sz dim_size inner_size input_data_base off buffers =
     foldl (\<lambda>buffers dim_idx.
              logsoftmax_bf16_max_dim fs sz input_data_base (off + dim_idx * inner_size)
                (dim_idx * CHUNK_SIZE) buffers)
       buffers [0..<dim_size]"

text \<open>Summing \<open>exp (x - max)\<close>, for one \<open>dim_idx\<close>.\<close>

definition logsoftmax_bf16_sum_dim ::
  "nat \<Rightarrow> nat \<Rightarrow> farray \<Rightarrow> farray \<Rightarrow> nat \<Rightarrow> farray \<Rightarrow> farray" where
  "logsoftmax_bf16_sum_dim fs sz input_max_data input_buffer_data input_buffer_ptr tmp_sum_data =
     (let bs = 2 * fs;
          tmp_sum_data =
            foldl (\<lambda>tmp_sum_data j.
                     (let d2 = j * bs;
                          data_fvec0 = loadu input_buffer_data (input_buffer_ptr + d2) fs;
                          data_fvec1 = loadu input_buffer_data (input_buffer_ptr + d2 + fs) fs;
                          sum_fvec0 = loadu tmp_sum_data d2 fs;
                          sum_fvec1 = loadu tmp_sum_data (d2 + fs) fs;
                          max_fvec0 = loadu input_max_data d2 fs;
                          max_fvec1 = loadu input_max_data (d2 + fs) fs;
                          sum_fvec0 = fvec_add sum_fvec0 (fvec_exp (fvec_sub data_fvec0 max_fvec0));
                          sum_fvec1 = fvec_add sum_fvec1 (fvec_exp (fvec_sub data_fvec1 max_fvec1));
                          tmp_sum_data = store sum_fvec0 tmp_sum_data d2
                      in store sum_fvec1 tmp_sum_data (d2 + fs)))
              tmp_sum_data [0..<sz div bs]
      in foldl (\<lambda>tmp_sum_data d2.
                  (let data_val = input_buffer_data (input_buffer_ptr + d2);
                       max_val = input_max_data d2
                   in tmp_sum_data (d2 := fadd (tmp_sum_data d2) (fexp (fsub data_val max_val)))))
           tmp_sum_data [sz - sz mod bs..<sz])"

definition logsoftmax_bf16_sum ::
  "nat \<Rightarrow> nat \<Rightarrow> nat \<Rightarrow> nat \<Rightarrow> farray \<Rightarrow> farray \<Rightarrow> farray \<Rightarrow> farray" where
  "logsoftmax_bf16_sum fs CHUNK_SIZE sz dim_size input_max_data input_buffer_data tmp_sum_data =
     foldl (\<lambda>tmp_sum_data dim_idx.
              logsoftmax_bf16_sum_dim fs sz input_max_data input_buffer_data (dim_idx * CHUNK_SIZE)
                tmp_sum_data)
       tmp_sum_data [0..<dim_size]"

text \<open>Writing \<open>x - max - sum\<close>, for one \<open>dim_idx\<close>.\<close>

definition logsoftmax_bf16_out_dim ::
  "(float \<Rightarrow> float) \<Rightarrow> nat \<Rightarrow> nat \<Rightarrow> farray \<Rightarrow> farray \<Rightarrow> farray \<Rightarrow> nat \<Rightarrow> nat \<Rightarrow> farray \<Rightarrow> farray" where
  "logsoftmax_bf16_out_dim to_bf16 fs sz input_max_data tmp_sum_data input_buffer_data
       input_buffer_ptr output_ptr output_data_base =
     (let bs = 2 * fs;
          output_data_base =
            foldl (\<lambda>output_data_base j.
                     (let d3 = j * bs;
                          data_fvec0 = loadu input_buffer_data (input_buffer_ptr + d3) fs;
                          data_fvec1 = loadu input_buffer_data (input_buffer_ptr + d3 + fs) fs;
                          max_fvec0 = loadu input_max_data d3 fs;
                          max_fvec1 = loadu input_max_data (d3 + fs) fs;
                          sum_fvec0 = loadu tmp_sum_data d3 fs;
                          sum_fvec1 = loadu tmp_sum_data (d3 + fs) fs;
                          out_fvec0 = fvec_sub (fvec_sub data_fvec0 max_fvec0) sum_fvec0;
                          out_fvec1 = fvec_sub (fvec_sub data_fvec1 max_fvec1) sum_fvec1;
                          out_bvec = convert_float_bfloat16 to_bf16 out_fvec0 out_fvec1
                      in store out_bvec output_data_base (output_ptr + d3)))
              output_data_base [0..<sz div bs]
      in foldl (\<lambda>output_data_base d3.
                  output_data_base (output_ptr + d3 :=
                    to_bf16 (fsub (fsub (input_buffer_data (input_buffer_ptr + d3)) (input_max_data d3))
                               (tmp_sum_data d3))))
           output_data_base [sz - sz mod bs..<sz])"

definition logsoftmax_bf16_out ::
  "(float \<Rightarrow> float) \<Rightarrow> nat \<Rightarrow> nat \<Rightarrow> nat \<Rightarrow> nat \<Rightarrow> nat \<Rightarrow> farray \<Rightarrow> farray \<Rightarrow> farray \<Rightarrow> nat
     \<Rightarrow> farray \<Rightarrow> farray" where
  "logsoftmax_bf16_out to_bf16 fs CHUNK_SIZE sz dim_size inner_size input_max_data tmp_sum_data
       input_buffer_data off output_data_base =
     foldl (\<lambda>output_data_base dim_idx.
              logsoftmax_bf16_out_dim to_bf16 fs sz input_max_data tmp_sum_data input_buffer_data
                (dim_idx * CHUNK_SIZE) (off + dim_idx * inner_size) output_data_base)
       output_data_base [0..<dim_size]"

text \<open>
  The state of a task: the output, the buffers for maximum and sum, and the buffer that
  holds the input as \<open>float\<close>. One iteration of the loop over \<open>i\<close>:
\<close>

record logsoftmax_state =
  output_data :: farray
  input_max_data :: farray
  tmp_sum_data :: farray
  input_buffer_data :: farray

definition logsoftmax_bf16_block ::
  "(float \<Rightarrow> float) \<Rightarrow> nat \<Rightarrow> nat \<Rightarrow> nat \<Rightarrow> nat \<Rightarrow> nat \<Rightarrow> farray \<Rightarrow> nat \<Rightarrow> logsoftmax_state
     \<Rightarrow> logsoftmax_state" where
  "logsoftmax_bf16_block to_bf16 fs CHUNK_SIZE num_chunks dim_size inner_size input_data_base i s =
     (let outer_idx = i div num_chunks;
          k = i mod num_chunks;
          inner_idx_begin = k * CHUNK_SIZE;
          sz = min CHUNK_SIZE (inner_size - inner_idx_begin);
          off = outer_idx * dim_size * inner_size + inner_idx_begin;
          (max1, sum1) = logsoftmax_bf16_init fs sz (input_max_data s, tmp_sum_data s);
          (max2, buf2) = logsoftmax_bf16_max fs CHUNK_SIZE sz dim_size inner_size input_data_base off
                           (max1, input_buffer_data s);
          sum2 = logsoftmax_bf16_sum fs CHUNK_SIZE sz dim_size max2 buf2 sum1;
          sum3 = vec_map flog sum2 0 sum2 0 sz;
          out = logsoftmax_bf16_out to_bf16 fs CHUNK_SIZE sz dim_size inner_size max2 sum3 buf2 off
                  (output_data s)
      in \<lparr>output_data = out, input_max_data = max2, tmp_sum_data = sum3, input_buffer_data = buf2\<rparr>)"

text \<open>
  The kernel. \<open>BLOCK_SIZE / dim_size\<close> is undefined for \<open>dim_size = 0\<close>, and the
  vector sz is a positive constant of the build. The buffers of a task are allocated
  without a value; \<open>buffers0\<close> is what they hold then. The result is the state after
  the last task, so that the buffers can be looked at.
\<close>

definition divup :: "nat \<Rightarrow> nat \<Rightarrow> nat" where
  "divup x y = (x + y - 1) div y"

definition vec_logsoftmax_bf16 ::
  "(float \<Rightarrow> float) \<Rightarrow> nat \<Rightarrow> (nat \<times> nat) list \<Rightarrow> farray \<Rightarrow> farray \<Rightarrow> farray \<Rightarrow> nat \<Rightarrow> nat \<Rightarrow> nat
     \<Rightarrow> error + logsoftmax_state" where
  "vec_logsoftmax_bf16 to_bf16 fs schedule buffers0 input_data_base output_data_base
       outer_size inner_size dim_size =
     (if dim_size = 0 \<or> fs = 0 then Inl UndefinedBehaviour
      else
        (let BLOCK_SIZE = 128 * 1024;
             CHUNK_SIZE = max (BLOCK_SIZE div dim_size div 2) (2 * fs);
             CHUNK_SIZE = CHUNK_SIZE div (2 * fs) * (2 * fs);
             num_chunks = divup inner_size CHUNK_SIZE;
             grain_size = GRAIN_SIZE div (16 * dim_size * CHUNK_SIZE)
         in Inr (parallel_for schedule 0 (outer_size * num_chunks) grain_size
                   (\<lambda>begin end s.
                      foldl (\<lambda>s i. logsoftmax_bf16_block to_bf16 fs CHUNK_SIZE num_chunks dim_size inner_size
                                      input_data_base i s)
                        (s\<lparr>input_max_data := buffers0, tmp_sum_data := buffers0,
                           input_buffer_data := buffers0\<rparr>) [begin..<end])
                   \<lparr>output_data = output_data_base, input_max_data = buffers0,
                    tmp_sum_data = buffers0, input_buffer_data = buffers0\<rparr>)))"

section \<open>Definitions used to state the properties\<close>

text \<open>
  The result of \<open>isEnabled\<close> as the specification words it: forced off by
  \<open>PYTORCH_JIT_USE_NNC_NOT_NVFUSER\<close>, else the value assigned at run time, else the
  value of \<open>PYTORCH_JIT_ENABLE_NVFUSER\<close>, else the default of the build.
\<close>

definition build_default :: "environment \<Rightarrow> bool" where
  "build_default env = (if FBCODE_CAFFE2 env then False else nvfuserCanBeEnabled env)"

definition precedence_value :: "environment \<Rightarrow> bool option \<Rightarrow> bool" where
  "precedence_value env assigned =
     (if PYTORCH_JIT_USE_NNC_NOT_NVFUSER env = Some ''1'' \<or> PYTORCH_JIT_USE_NNC_NOT_NVFUSER env = Some ''ON''
        then False
      else case assigned of
        Some v \<Rightarrow> v
      | None \<Rightarrow>
         (case PYTORCH_JIT_ENABLE_NVFUSER env of
            Some e \<Rightarrow> (if e = ''0'' \<or> e = ''OFF'' then False else True)
          | None \<Rightarrow> build_default env))"

text \<open>
  The one-time check of \<open>isEnabledImpl\<close> throws: it has not passed yet, nothing was
  assigned at run time, the environment asks for the fuser, and the fuser cannot be
  enabled.
\<close>

definition env_check_fails :: "environment \<Rightarrow> NVFuserEnabler \<Rightarrow> bool" where
  "env_check_fails env s =
     (\<not> enabled_check_flag s \<and> runtime_assigned_fuser_enabled s = None \<and>
      getFuserEnabledEnvVar env = Some True \<and> \<not> nvfuserCanBeEnabled env)"

text \<open>Two environments and two interfaces for the concrete instances.\<close>

definition cpu_only_env :: environment where
  "cpu_only_env = \<lparr>PYTORCH_JIT_ENABLE_NVFUSER = Some ''1'', PYTORCH_JIT_USE_NNC_NOT_NVFUSER = Some ''1'',
     hasCUDA = False, isRegistered = False, getExecutorMode = False, USE_ROCM = False, FBCODE_CAFFE2 = False\<rparr>"

definition cuda_env :: environment where
  "cuda_env = \<lparr>PYTORCH_JIT_ENABLE_NVFUSER = Some ''ON'', PYTORCH_JIT_USE_NNC_NOT_NVFUSER = None,
     hasCUDA = True, isRegistered = True, getExecutorMode = True, USE_ROCM = False, FBCODE_CAFFE2 = False\<rparr>"

definition no_fuser :: "(nat, nat, nat list, nat list) CudaFuserInterface" where
  "no_fuser = \<lparr>fn_compile_n = None, fn_run_n_s = None, fn_fuse_graph = None\<rparr>"

definition some_fuser :: "(nat, nat, nat list, nat list) CudaFuserInterface" where
  "some_fuser = \<lparr>fn_compile_n = Some (\<lambda>n w. n + w), fn_run_n_s = Some (\<lambda>n st. n # st),
     fn_fuse_graph = Some rev\<rparr>"















text \<open>
  The gradient that the backward kernel is to write at position \<open>i\<close> of the row of \<open>n\<close>
  elements that starts at \<open>base\<close>.
\<close>

definition backward_of :: "bool \<Rightarrow> array \<Rightarrow> array \<Rightarrow> nat \<Rightarrow> nat \<Rightarrow> nat \<Rightarrow> real" where
  "backward_of log_softmax grad output base n i =
     (if log_softmax
      then grad (base + i) - exp (output (base + i)) * (\<Sum>j<n. grad (base + j))
      else (grad (base + i) - (\<Sum>j<n. grad (base + j) * output (base + j))) * output (base + i))"



text \<open>
  An input for the \<open>BFloat16\<close> log-softmax kernel: one row of sixteen slices of length
  one, the first eight holding 0 and the last eight 200.
\<close>

definition lanes_0_200 :: farray where
  "lanes_0_200 = (\<lambda>k. if k < 8 then Finite 0 else Finite 200)"

section \<open>Theorems: \<open>prim::infer_squeeze_size\<close>\<close>

lemma squeeze_loop_filter:
  "0 \<le> it \<Longrightarrow> it \<le> int (length sz) \<Longrightarrow>
   squeeze_loop it sz = Inr (take (nat it) sz @ filter (\<lambda>x. x \<noteq> 1) (drop (nat it) sz))"
proof (induction it sz rule: squeeze_loop.induct)
  case (1 it sz)
  show ?case
  proof (cases "it = int (length sz)")
    case True
    then show ?thesis by (subst squeeze_loop.simps) simp
  next
    case False
    with "1.prems" have lt: "nat it < length sz" by linarith
    have d: "drop (nat it) sz = sz ! nat it # drop (Suc (nat it)) sz"
      using lt by (simp add: Cons_nth_drop_Suc)
    show ?thesis
    proof (cases "sz ! nat it = 1")
      case True
      have len: "it \<le> int (length (erase sz (nat it)))"
        using lt by (simp add: erase_def)
      have IH: "squeeze_loop (it - 1 + 1) (erase sz (nat it)) =
          Inr (take (nat (it - 1 + 1)) (erase sz (nat it)) @
               filter (\<lambda>x. x \<noteq> 1) (drop (nat (it - 1 + 1)) (erase sz (nat it))))"
        using "1.IH"(1)[OF False _ True refl refl refl] "1.prems" False len by simp
      have e1: "take (nat it) (erase sz (nat it)) = take (nat it) sz"
        using lt by (simp add: erase_def)
      have e2: "drop (nat it) (erase sz (nat it)) = drop (Suc (nat it)) sz"
        using lt by (simp add: erase_def)
      show ?thesis
        using False "1.prems" True IH e1 e2 d
        by (subst squeeze_loop.simps) (simp add: Let_def)
    next
      case nz: False
      have IH: "squeeze_loop (it + 1) sz =
          Inr (take (nat (it + 1)) sz @ filter (\<lambda>x. x \<noteq> 1) (drop (nat (it + 1)) sz))"
        using "1.IH"(2)[OF False _ nz] "1.prems" False lt by simp
      have s: "nat (it + 1) = Suc (nat it)" using "1.prems" by simp
      have t: "take (Suc (nat it)) sz = take (nat it) sz @ [sz ! nat it]"
        using lt by (simp add: take_Suc_conv_app_nth)
      show ?thesis
        using False "1.prems" nz IH d t s
        by (subst squeeze_loop.simps) simp
    qed
  qed
qed

text \<open>
  C10. With an int list \<open>a\<close> on top of the stack, \<open>prim::infer_squeeze_size\<close> replaces
  it by \<open>a\<close> without its elements equal to 1, the others in their order; this includes
  lists that start with 1.
\<close>

theorem infer_squeeze_size_filter:
  "infer_squeeze_size (stack @ [IIntList a]) = Inr (stack @ [IIntList (filter (\<lambda>x. x \<noteq> 1) a)])"
  using squeeze_loop_filter[of 0 a]
  by (simp add: infer_squeeze_size_def pop_def toIntList_def bindE_def push_def)

theorem infer_squeeze_size_filter_witness:
  "infer_squeeze_size [IInt 7, IIntList [1, 2, 1, 1, 3]] = Inr [IInt 7, IIntList [2, 3]]"
  using infer_squeeze_size_filter[of "[IInt 7]" "[1, 2, 1, 1, 3]"] by simp

section \<open>Theorems: enabling the fuser\<close>

lemma isEnabledImpl_eq:
  "isEnabledImpl env s =
     (if env_check_fails env s
      then (Inl (TorchCheck ''Running CUDA fuser is only supported on CUDA builds.''), s)
      else (Inr (precedence_value env (runtime_assigned_fuser_enabled s)), s\<lparr>enabled_check_flag := True\<rparr>))"
  by (cases "PYTORCH_JIT_ENABLE_NVFUSER env"; cases "PYTORCH_JIT_USE_NNC_NOT_NVFUSER env";
      cases "runtime_assigned_fuser_enabled s"; cases "enabled_check_flag s")
     (auto simp: isEnabledImpl_def enabled_check_def env_check_fails_def precedence_value_def
        getCachedFuserEnabledEnvVar_def getFuserEnabledEnvVar_def getCachedNNCNotNVFuser_def
        getNNCNotNVFuser_def assertFuserCanBeEnabled_def build_default_def)

text \<open>
  C5 (as amended). Unless the one-time check throws (it has not passed yet, no value
  was assigned at run time, \<open>PYTORCH_JIT_ENABLE_NVFUSER\<close> asks for the fuser and the fuser
  cannot be enabled), \<open>isEnabled\<close> returns: false when
  \<open>PYTORCH_JIT_USE_NNC_NOT_NVFUSER\<close> is \<open>1\<close> or \<open>ON\<close>; else the value assigned at run
  time, if any; else the value of \<open>PYTORCH_JIT_ENABLE_NVFUSER\<close> (false exactly for \<open>0\<close>
  and \<open>OFF\<close>), if set; else the default of the build. The value assigned at run time is
  the argument of the last \<open>setEnabled\<close> that returned: \<open>isEnabled\<close> and a throwing
  \<open>setEnabled\<close> leave it as it is.
\<close>

theorem isEnabled_precedence:
  "isEnabled env s =
     (if env_check_fails env s
      then (Inl (TorchCheck ''Running CUDA fuser is only supported on CUDA builds.''), s)
      else (Inr (precedence_value env (runtime_assigned_fuser_enabled s)), s\<lparr>enabled_check_flag := True\<rparr>))
   \<and> runtime_assigned_fuser_enabled (snd (isEnabled env s)) = runtime_assigned_fuser_enabled s
   \<and> (\<forall>v old. fst (setEnabled env v s) = Inr old \<longrightarrow>
         runtime_assigned_fuser_enabled (snd (setEnabled env v s)) = Some v)
   \<and> (\<forall>v e. fst (setEnabled env v s) = Inl e \<longrightarrow>
         runtime_assigned_fuser_enabled (snd (setEnabled env v s)) = runtime_assigned_fuser_enabled s)"
  by (auto simp: isEnabled_def isEnabledImpl_eq setEnabled_def split: sum.splits if_splits)

theorem isEnabled_precedence_witness:
  "fst (setEnabled cuda_env False nvfuser_enabler) = Inr True \<and>
   runtime_assigned_fuser_enabled (snd (setEnabled cuda_env False nvfuser_enabler)) = Some False \<and>
   fst (isEnabled cuda_env nvfuser_enabler) = Inr True"
proof -
  have 1: "fst (setEnabled cuda_env False nvfuser_enabler) = Inr True"
    by (simp add: setEnabled_def isEnabledImpl_eq env_check_fails_def precedence_value_def
        cuda_env_def nvfuser_enabler_def assertFuserCanBeEnabled_def nvfuserCanBeEnabled_def)
  have 2: "fst (isEnabled cuda_env nvfuser_enabler) = Inr True"
    by (simp add: isEnabled_def isEnabledImpl_eq env_check_fails_def precedence_value_def
        cuda_env_def nvfuser_enabler_def assertFuserCanBeEnabled_def nvfuserCanBeEnabled_def)
  from isEnabled_precedence[of cuda_env nvfuser_enabler] 1 2 show ?thesis by blast
qed

text \<open>
  The claim as first stated fails: with \<open>PYTORCH_JIT_USE_NNC_NOT_NVFUSER=1\<close> and
  \<open>PYTORCH_JIT_ENABLE_NVFUSER=1\<close> on a build without CUDA, the first \<open>isEnabled\<close> throws
  instead of returning false.
\<close>

theorem isEnabled_precedence_counterexample:
  "getNNCNotNVFuser cpu_only_env \<and>
   fst (isEnabled cpu_only_env nvfuser_enabler) =
     Inl (TorchCheck ''Running CUDA fuser is only supported on CUDA builds.'')"
  by (simp add: cpu_only_env_def nvfuser_enabler_def isEnabled_def isEnabledImpl_def enabled_check_def
      getCachedFuserEnabledEnvVar_def getFuserEnabledEnvVar_def getNNCNotNVFuser_def
      assertFuserCanBeEnabled_def nvfuserCanBeEnabled_def)

text \<open>
  C8 (as amended). \<open>setEnabled\<close> throws exactly when the fuser cannot be enabled and
  either \<open>is_enabled\<close> is true or the one-time check of \<open>isEnabledImpl\<close> throws. When
  it throws the object is unchanged, so \<open>isEnabled\<close> answers as before. When it
  returns, it returns what \<open>isEnabled\<close> would have returned and has recorded
  \<open>is_enabled\<close>.
\<close>

theorem setEnabled_atomic:
  "((\<exists>e. fst (setEnabled env is_enabled s) = Inl e) \<longleftrightarrow>
      \<not> nvfuserCanBeEnabled env \<and> (is_enabled \<or> env_check_fails env s))
   \<and> (\<forall>e. fst (setEnabled env is_enabled s) = Inl e \<longrightarrow>
         snd (setEnabled env is_enabled s) = s \<and>
         isEnabled env (snd (setEnabled env is_enabled s)) = isEnabled env s)
   \<and> (\<forall>old_value. fst (setEnabled env is_enabled s) = Inr old_value \<longrightarrow>
         fst (isEnabled env s) = Inr old_value \<and>
         snd (setEnabled env is_enabled s) =
           s\<lparr>enabled_check_flag := True, runtime_assigned_fuser_enabled := Some is_enabled\<rparr>)"
  by (auto simp: isEnabled_def isEnabledImpl_eq setEnabled_def assertFuserCanBeEnabled_def
       env_check_fails_def split: sum.splits if_splits)

theorem setEnabled_atomic_witness:
  "fst (setEnabled cpu_only_env True nvfuser_enabler) =
     Inl (TorchCheck ''Running CUDA fuser is only supported on CUDA builds.'') \<and>
   snd (setEnabled cpu_only_env True nvfuser_enabler) = nvfuser_enabler \<and>
   fst (setEnabled cuda_env True nvfuser_enabler) = Inr True \<and>
   snd (setEnabled cuda_env True nvfuser_enabler) =
     \<lparr>runtime_assigned_fuser_enabled = Some True, enabled_check_flag = True\<rparr>"
proof -
  have 1: "fst (setEnabled cpu_only_env True nvfuser_enabler) =
     Inl (TorchCheck ''Running CUDA fuser is only supported on CUDA builds.'')"
    by (simp add: setEnabled_def assertFuserCanBeEnabled_def cpu_only_env_def nvfuserCanBeEnabled_def)
  have 2: "fst (setEnabled cuda_env True nvfuser_enabler) = Inr True"
    by (simp add: setEnabled_def isEnabledImpl_eq env_check_fails_def precedence_value_def
        cuda_env_def nvfuser_enabler_def assertFuserCanBeEnabled_def nvfuserCanBeEnabled_def)
  from setEnabled_atomic[of cpu_only_env True nvfuser_enabler] 1
  have 3: "snd (setEnabled cpu_only_env True nvfuser_enabler) = nvfuser_enabler" by blast
  from setEnabled_atomic[of cuda_env True nvfuser_enabler] 2
  have 4: "snd (setEnabled cuda_env True nvfuser_enabler) =
      nvfuser_enabler\<lparr>enabled_check_flag := True, runtime_assigned_fuser_enabled := Some True\<rparr>"
    by blast
  from 1 2 3 4 show ?thesis by (simp add: nvfuser_enabler_def)
qed

text \<open>
  The claim as first stated fails: \<open>setEnabled(false)\<close> throws when the environment
  asks for the fuser on a build without CUDA and the one-time check has not passed.
\<close>

theorem setEnabled_atomic_counterexample:
  "(\<exists>e. fst (setEnabled cpu_only_env False nvfuser_enabler) = Inl e)"
  by (simp add: setEnabled_def isEnabledImpl_eq env_check_fails_def assertFuserCanBeEnabled_def
       cpu_only_env_def nvfuser_enabler_def getFuserEnabledEnvVar_def nvfuserCanBeEnabled_def)

section \<open>Theorems: the fuser interface\<close>

text \<open>
  C7. \<open>compileFusionGroup\<close> and \<open>runFusionGroup\<close> fail the check with the message
  "Running the CUDA fuser requires a CUDA build." exactly when their function pointer is
  null, and return what the registered function returns otherwise. \<open>fuseGraph\<close> fails
  with that message only when \<open>isEnabled\<close> returned true and \<open>fn_fuse_graph\<close> is null;
  when \<open>isEnabled\<close> returns false the graph is returned as it was.
\<close>

theorem fusion_entry_points:
  "((compileFusionGroup fi fusion_node w = Inl (TorchCheck ''Running the CUDA fuser requires a CUDA build.''))
      \<longleftrightarrow> fn_compile_n fi = None)
   \<and> (\<forall>f. fn_compile_n fi = Some f \<longrightarrow> compileFusionGroup fi fusion_node w = Inr (f fusion_node w))
   \<and> ((runFusionGroup fi fusion_node stack = Inl (TorchCheck ''Running the CUDA fuser requires a CUDA build.''))
      \<longleftrightarrow> fn_run_n_s fi = None)
   \<and> (\<forall>f. fn_run_n_s fi = Some f \<longrightarrow> runFusionGroup fi fusion_node stack = Inr (f fusion_node stack))
   \<and> (fst (fuseGraph env fi graph s) = Inl (TorchCheck ''Running the CUDA fuser requires a CUDA build.'')
        \<longrightarrow> fst (isEnabled env s) = Inr True \<and> fn_fuse_graph fi = None)
   \<and> (fst (isEnabled env s) = Inr False \<longrightarrow>
        fuseGraph env fi graph s = (Inr graph, snd (isEnabled env s)))"
  by (auto simp: compileFusionGroup_def runFusionGroup_def fuseGraph_def isEnabled_def isEnabledImpl_eq
      split: option.splits sum.splits if_splits prod.splits)

theorem fusion_entry_points_witness:
  "compileFusionGroup some_fuser 3 4 = Inr 7 \<and>
   runFusionGroup some_fuser 3 [4] = Inr [3, 4] \<and>
   fuseGraph (cuda_env\<lparr>PYTORCH_JIT_ENABLE_NVFUSER := Some ''OFF''\<rparr>) no_fuser [1, 2] nvfuser_enabler =
     (Inr [1, 2], nvfuser_enabler\<lparr>enabled_check_flag := True\<rparr>) \<and>
   fst (fuseGraph cuda_env no_fuser [1, 2] nvfuser_enabler) =
     Inl (TorchCheck ''Running the CUDA fuser requires a CUDA build.'')"
proof -
  let ?off = "cuda_env\<lparr>PYTORCH_JIT_ENABLE_NVFUSER := Some ''OFF''\<rparr>"
  have c: "fn_compile_n some_fuser = Some (\<lambda>n w. n + w)" by (simp add: some_fuser_def)
  have r: "fn_run_n_s some_fuser = Some (\<lambda>n st. n # st)" by (simp add: some_fuser_def)
  have e: "isEnabled ?off nvfuser_enabler = (Inr False, nvfuser_enabler\<lparr>enabled_check_flag := True\<rparr>)"
    by (simp add: isEnabled_def isEnabledImpl_eq env_check_fails_def precedence_value_def
        cuda_env_def nvfuser_enabler_def getFuserEnabledEnvVar_def)
  have 1: "compileFusionGroup some_fuser 3 4 = Inr 7"
    using fusion_entry_points[of some_fuser 3 4 "[4]" ?off "[1,2]" nvfuser_enabler] c by simp
  have 2: "runFusionGroup some_fuser 3 [4] = Inr [3, 4]"
    using fusion_entry_points[of some_fuser 3 4 "[4]" ?off "[1,2]" nvfuser_enabler] r by simp
  have 3: "fuseGraph ?off no_fuser [1, 2] nvfuser_enabler =
     (Inr [1, 2], nvfuser_enabler\<lparr>enabled_check_flag := True\<rparr>)"
    using fusion_entry_points[of no_fuser 3 4 "[4]" ?off "[1,2]" nvfuser_enabler] e by simp
  have 4: "fst (fuseGraph cuda_env no_fuser [1, 2] nvfuser_enabler) =
     Inl (TorchCheck ''Running the CUDA fuser requires a CUDA build.'')"
    by (simp add: fuseGraph_def isEnabled_def isEnabledImpl_eq env_check_fails_def precedence_value_def
        cuda_env_def nvfuser_enabler_def getFuserEnabledEnvVar_def no_fuser_def nvfuserCanBeEnabled_def)
  from 1 2 3 4 show ?thesis by simp
qed

section \<open>Theorems: the guard operators with guarding switched off\<close>











section \<open>Theorems: \<open>checkViewGuard\<close>\<close>








section \<open>Theorems: the type guard \<open>complyWith\<close>\<close>



lemma index_int: "0 \<le> d \<Longrightarrow> nat d < length xs \<Longrightarrow> index xs d = Inr (xs ! nat d)"
  by (auto simp: index_def)
















section \<open>Theorems: the kernels over the last dimension\<close>

lemma reduce_all_one: "reduce_all f d off (Suc 0) = d off"
  by (simp add: reduce_all_def)

lemma reduce_all_Suc: "0 < n \<Longrightarrow> reduce_all f d off (Suc n) = f (reduce_all f d off n) (d (off + n))"
  by (simp add: reduce_all_def)

lemma reduce_all_sum: "0 < n \<Longrightarrow> reduce_all (+) d off n = (\<Sum>k<n. d (off + k))"
proof (induction n rule: nat_induct_non_zero)
  case 1
  then show ?case by (simp add: reduce_all_one)
next
  case (Suc n)
  then show ?case by (simp add: reduce_all_Suc)
qed


lemma map2_reduce_all_eq:
  "map2_reduce_all mf rf d off d2 off2 n = reduce_all rf (\<lambda>k. mf (d (off + k)) (d2 (off2 + k))) 0 n"
  by (simp add: map2_reduce_all_def reduce_all_def)

lemma map_reduce_all_eq:
  "map_reduce_all mf rf d off n = reduce_all rf (\<lambda>k. mf (d (off + k))) 0 n"
  by (simp add: map_reduce_all_def reduce_all_def)



lemma vec_map2_in:
  "j < n \<Longrightarrow> vec_map2 f out off in1 off1 in2 off2 n (off + j) = f (in1 (off1 + j)) (in2 (off2 + j))"
  by (simp add: vec_map2_def)

lemma vec_map2_out: "k < off \<or> off + n \<le> k \<Longrightarrow> vec_map2 f out off in1 off1 in2 off2 n k = out k"
  by (auto simp: vec_map2_def)

lemma parallel_for_range:
  "is_partition b e schedule \<Longrightarrow>
   parallel_for schedule b0 e0 g (\<lambda>begin end s. foldl step s [begin..<end]) s = foldl step s [b..<e]"
proof (induction schedule arbitrary: b s)
  case Nil
  then show ?case by (simp add: parallel_for_def)
next
  case (Cons c schedule)
  obtain b' e' where c: "c = (b', e')" by (cases c)
  with Cons.prems have p: "b' = b" "b < e'" "e' \<le> e" "is_partition e' e schedule" by auto
  have split: "[b..<e] = [b..<e'] @ [e'..<e]"
    using p by (metis less_imp_le_nat le_Suc_ex upt_add_eq_append)
  from Cons.IH[OF p(4), of "foldl step s [b..<e']"] c p split
  show ?case by (simp add: parallel_for_def)
qed

lemma foldl_rows:
  assumes frame: "\<And>i s k. k < i * d \<or> i * d + d \<le> k \<Longrightarrow> step i s k = s k"
    and val: "\<And>i s j. j < d \<Longrightarrow> step i s (i * d + j) = F i j"
  shows "b \<le> i \<Longrightarrow> i < e \<Longrightarrow> j < d \<Longrightarrow> foldl (\<lambda>s i. step i s) s [b..<e] (i * d + j) = F i j"
proof (induction e)
  case 0
  then show ?case by simp
next
  case (Suc e)
  from Suc.prems have be: "b \<le> e" by simp
  show ?case
  proof (cases "i = e")
    case True
    with be Suc.prems val show ?thesis by simp
  next
    case False
    with Suc.prems have ie: "i < e" by simp
    then have "Suc i \<le> e" by simp
    then have "Suc i * d \<le> e * d" by (rule mult_le_mono1)
    with Suc.prems(3) have "i * d + j < e * d" by simp
    with frame[of "i * d + j" e] be Suc.IH[OF Suc.prems(1) ie Suc.prems(3)]
    show ?thesis by simp
  qed
qed

lemma backward_lastdim_row_frame:
  "k < i * d \<or> i * d + d \<le> k \<Longrightarrow> backward_lastdim_row ls grad out d i gi k = gi k"
  by (simp add: backward_lastdim_row_def Let_def vec_map2_out)

lemma backward_lastdim_row_val:
  assumes "j < d"
  shows "backward_lastdim_row ls grad out d i gi (i * d + j) = backward_of ls grad out (i * d) d j"
proof -
  from assms have d: "0 < d" by simp
  show ?thesis
    using assms
    by (simp add: backward_lastdim_row_def Let_def vec_map2_in backward_of_def
        reduce_all_sum[OF d] map2_reduce_all_eq)
qed

lemma backward_lastdim_correct:
  assumes "is_partition 0 outer_size schedule" "i < outer_size" "j < dim_size"
  shows "\<exists>gi. vec_host_softmax_backward_lastdim ls schedule gi0 grad out outer_size dim_size = Inr gi \<and>
          gi (i * dim_size + j) = backward_of ls grad out (i * dim_size) dim_size j"
proof -
  from assms have d: "dim_size \<noteq> 0" by simp
  have "foldl (\<lambda>s i. backward_lastdim_row ls grad out dim_size i s) gi0 [0..<outer_size] (i * dim_size + j)
        = backward_of ls grad out (i * dim_size) dim_size j"
    by (rule foldl_rows[where step = "backward_lastdim_row ls grad out dim_size"
          and F = "\<lambda>i j. backward_of ls grad out (i * dim_size) dim_size j"])
       (use assms in \<open>simp_all add: backward_lastdim_row_frame backward_lastdim_row_val\<close>)
  with d show ?thesis
    by (simp add: vec_host_softmax_backward_lastdim_def Let_def parallel_for_range[OF assms(1)])
qed

lemma foldl_mult_prod_list: "foldl (\<lambda>a s. a * s) (a :: nat) xs = a * prod_list xs"
  by (induction xs arbitrary: a) (simp_all add: mult.assoc)

text \<open>
  C3. For grad and output laid out as \<open>outer_size\<close> rows of \<open>dim_size\<close> elements and any
  cut of the rows into tasks, the backward kernel writes, at every position \<open>j\<close> of every
  row \<open>i\<close>: in softmax mode \<open>(grad - S) * output\<close> with \<open>S\<close> the sum of
  \<open>grad * output\<close> over the row; in log-softmax mode \<open>grad - exp output * S\<close> with \<open>S\<close>
  the sum of \<open>grad\<close> over the row. \<open>apply\<close> calls the kernel with the product of the
  leading sizes as the number of rows and the last size as their length.
\<close>

theorem backward_lastdim_gradients:
  assumes "is_partition 0 outer_size schedule" and "i < outer_size" and "j < dim_size"
  shows "(\<exists>grad_input.
            vec_host_softmax_backward_lastdim False schedule grad_input0 grad output outer_size dim_size
              = Inr grad_input \<and>
            grad_input (i * dim_size + j) =
              (grad (i * dim_size + j) - (\<Sum>k<dim_size. grad (i * dim_size + k) * output (i * dim_size + k)))
                * output (i * dim_size + j))
       \<and> (\<exists>grad_input.
            vec_host_softmax_backward_lastdim True schedule grad_input0 grad output outer_size dim_size
              = Inr grad_input \<and>
            grad_input (i * dim_size + j) =
              grad (i * dim_size + j) - exp (output (i * dim_size + j)) * (\<Sum>k<dim_size. grad (i * dim_size + k)))
       \<and> (grad_sizes \<noteq> [] \<longrightarrow>
            vec_host_softmax_backward_lastdim_apply LogSoftMax schedule grad_sizes grad_input0 grad output =
            vec_host_softmax_backward_lastdim LogSoftMax schedule grad_input0 grad output
              (prod_list (butlast grad_sizes)) (last grad_sizes))"
  using backward_lastdim_correct[OF assms, of False grad_input0 grad "output"]
    backward_lastdim_correct[OF assms, of True grad_input0 grad "output"]
  by (simp add: backward_of_def vec_host_softmax_backward_lastdim_apply_def Let_def foldl_mult_prod_list)

theorem backward_lastdim_gradients_witness:
  "(\<exists>grad_input.
      vec_host_softmax_backward_lastdim False [(0, 1)] (\<lambda>k. 0) (\<lambda>k. real k + 1) (\<lambda>k. real k + 3) 1 2
        = Inr grad_input \<and> grad_input 1 = - 36)
   \<and> (\<exists>grad_input.
      vec_host_softmax_backward_lastdim True [(0, 1)] (\<lambda>k. 0) (\<lambda>k. real k + 1) (\<lambda>k. real k + 3) 1 2
        = Inr grad_input \<and> grad_input 1 = 2 - exp 4 * 3)"
  using backward_lastdim_gradients[of 1 "[(0, 1)]" 0 1 2 "\<lambda>k. 0" "\<lambda>k. real k + 1" "\<lambda>k. real k + 3" "[2]" False]
  by (simp add: lessThan_Suc numeral_2_eq_2)

section \<open>Theorems: the softmax forward kernels\<close>

subsection \<open>The kernel over the last dimension\<close>




subsection \<open>Addresses\<close>





subsection \<open>The scalar tail\<close>

lemma foldl_upt_Suc: "foldl f a [0..<Suc n] = f (foldl f a [0..<n]) n"
  by simp





subsection \<open>The vectorized branch\<close>












subsection \<open>One task and the whole kernel\<close>





subsection \<open>The vectorized branch for BFloat16\<close>










lemma softmax_bf16_vectorized_snd:
  "\<exists>tin' tout'. snd (softmax_bf16_vectorized rnd fs vs x off st n (out, tin, tout)) = (tin', tout')"
  by (cases "snd (softmax_bf16_vectorized rnd fs vs x off st n (out, tin, tout))") auto


subsection \<open>Tasks and kernels\<close>









section \<open>Theorems: the log-softmax kernel for \<open>BFloat16\<close>\<close>

lemma FLT_MAX_less_exp_200: "FLT_MAX < exp 200"
proof -
  have "(2::real) \<le> exp 1" using exp_ge_add_one_self[of 1] by simp
  then have "(2::real) ^ 200 \<le> exp 1 ^ 200" by (rule power_mono) simp
  also have "exp 1 ^ 200 = exp (200 :: real)"
    using exp_of_nat_mult[of 200 "1::real"] by simp
  finally have "(2::real) ^ 200 \<le> exp 200" .
  moreover have "FLT_MAX < 2 ^ 200" by (simp add: FLT_MAX_def)
  ultimately show ?thesis by linarith
qed

lemma init16: "logsoftmax_bf16_init 8 16 (m, s) = (store (replicate 8 NegInf) (store (replicate 8 NegInf) m 0) 8,
    store (replicate 8 (Finite 0)) (store (replicate 8 (Finite 0)) s 0) 8)"
  by (simp add: logsoftmax_bf16_init_def Let_def)

lemma length_loadu': "length (loadu d off n) = n"
  by (simp add: loadu_def)

lemma nth_loadu': "l < n \<Longrightarrow> loadu d off n ! l = d (off + l)"
  by (simp add: loadu_def)

lemma store_apply: "store v d off k = (if off \<le> k \<and> k < off + length v then v ! (k - off) else d k)"
  by (simp add: store_def)

lemma length_fvec:
  "length (blendv a b m) = min (min (length a) (length b)) (length m)"
  "length (fvec_gt a b) = min (length a) (length b)"
  "length (fvec_sub a b) = min (length a) (length b)"
  "length (fvec_add a b) = min (length a) (length b)"
  "length (fvec_exp a) = length a"
  by (simp_all add: blendv_def fvec_gt_def fvec_sub_def fvec_add_def fvec_exp_def)

lemma nth_fvec:
  "l < length a \<Longrightarrow> l < length b \<Longrightarrow> l < length m \<Longrightarrow>
     blendv a b m ! l = (if m ! l then b ! l else a ! l)"
  "l < length a \<Longrightarrow> l < length b \<Longrightarrow> fvec_gt a b ! l = fgt (a ! l) (b ! l)"
  "l < length a \<Longrightarrow> l < length b \<Longrightarrow> fvec_sub a b ! l = fsub (a ! l) (b ! l)"
  "l < length a \<Longrightarrow> l < length b \<Longrightarrow> fvec_add a b ! l = fadd (a ! l) (b ! l)"
  "l < length a \<Longrightarrow> fvec_exp a ! l = fexp (a ! l)"
  by (simp_all add: blendv_def fvec_gt_def fvec_sub_def fvec_add_def fvec_exp_def)

lemma convert_nth:
  "length (fst (convert_bfloat16_float fs v)) = min fs (length v)"
  "length (snd (convert_bfloat16_float fs v)) = length v - fs"
  "l < fs \<Longrightarrow> l < length v \<Longrightarrow> fst (convert_bfloat16_float fs v) ! l = v ! l"
  "fs + l < length v \<Longrightarrow> snd (convert_bfloat16_float fs v) ! l = v ! (fs + l)"
  by (simp_all add: convert_bfloat16_float_def)

lemmas eval_vec = length_loadu' nth_loadu' store_apply length_fvec nth_fvec convert_nth

lemma vec_map_apply: "vec_map f out off inp ioff n k = (if off \<le> k \<and> k < off + n then f (inp (ioff + (k - off))) else out k)"
  by (simp add: vec_map_def)

lemma block_16:
  "logsoftmax_bf16_block (\<lambda>v. v) 8 65536 1 1 16 lanes_0_200 0
      \<lparr>output_data = out, input_max_data = b, tmp_sum_data = b, input_buffer_data = b\<rparr> = s \<Longrightarrow>
   input_max_data s 8 = Finite 0 \<and> tmp_sum_data s 8 = Finite 200 \<and> output_data s 8 = Finite 0"
  by (auto simp add: logsoftmax_bf16_block_def logsoftmax_bf16_max_def logsoftmax_bf16_max_dim_def
      logsoftmax_bf16_sum_def logsoftmax_bf16_sum_dim_def logsoftmax_bf16_out_def
      logsoftmax_bf16_out_dim_def init16 Let_def split_beta
      eval_vec lanes_0_200_def vec_map_apply fsub_def convert_float_bfloat16_def nth_append)

lemma sum_phase_8:
  "logsoftmax_bf16_sum 8 65536 16 1
     (fst (logsoftmax_bf16_max 8 65536 16 1 16 lanes_0_200 0 (fst (logsoftmax_bf16_init 8 16 (b, b)), b)))
     (snd (logsoftmax_bf16_max 8 65536 16 1 16 lanes_0_200 0 (fst (logsoftmax_bf16_init 8 16 (b, b)), b)))
     (snd (logsoftmax_bf16_init 8 16 (b, b))) 8 = Finite (exp 200)"
  by (simp add: logsoftmax_bf16_max_def logsoftmax_bf16_max_dim_def
      logsoftmax_bf16_sum_def logsoftmax_bf16_sum_dim_def init16 Let_def split_beta
      eval_vec lanes_0_200_def fsub_def)

lemma kernel_16:
  "vec_logsoftmax_bf16 (\<lambda>v. v) 8 [(0, 1)] b lanes_0_200 out 1 16 1 =
   Inr (logsoftmax_bf16_block (\<lambda>v. v) 8 65536 1 1 16 lanes_0_200 0
      \<lparr>output_data = out, input_max_data = b, tmp_sum_data = b, input_buffer_data = b\<rparr>)"
  by (simp add: vec_logsoftmax_bf16_def parallel_for_def divup_def Let_def)

text \<open>
  C2, the \<open>BFloat16\<close> kernel at a failing input. The vector loop that computes the
  maximum stores \<open>max_fvec0\<close> twice and \<open>max_fvec1\<close> never, so the upper half of each
  \<open>BFloat16\<close> vector works with the maximum of the lower half. Here slice 8 holds 200,
  but the maximum taken for it is 0, that of slice 0; the sum for it is then \<open>exp 200\<close>
  instead of 1. That is more than the largest \<open>float\<close>, so the \<open>float\<close> sum of the
  source is infinite and the output \<open>200 - 0 - log inf\<close> is minus infinity, where the
  log-softmax of a slice of length one is 0. In the exact arithmetic of this model the
  wrong maximum cancels and the output is still 0.
\<close>

theorem logsoftmax_bf16_wrong_max:
  "(\<exists>s. vec_logsoftmax_bf16 (\<lambda>v. v) 8 [(0, 1)] (\<lambda>k. NaN) lanes_0_200 (\<lambda>k. NaN) 1 16 1 = Inr s \<and>
        input_max_data s 8 = Finite 0 \<and> tmp_sum_data s 8 = Finite 200 \<and> output_data s 8 = Finite 0)
   \<and> lanes_0_200 8 = Finite 200
   \<and> logsoftmax_bf16_sum 8 65536 16 1
        (fst (logsoftmax_bf16_max 8 65536 16 1 16 lanes_0_200 0
                (fst (logsoftmax_bf16_init 8 16 (\<lambda>k. NaN, \<lambda>k. NaN)), \<lambda>k. NaN)))
        (snd (logsoftmax_bf16_max 8 65536 16 1 16 lanes_0_200 0
                (fst (logsoftmax_bf16_init 8 16 (\<lambda>k. NaN, \<lambda>k. NaN)), \<lambda>k. NaN)))
        (snd (logsoftmax_bf16_init 8 16 (\<lambda>k. NaN, \<lambda>k. NaN))) 8 = Finite (exp 200)
   \<and> FLT_MAX < exp 200"
  using block_16[OF refl, of "\<lambda>k. NaN" "\<lambda>k. NaN"] kernel_16[of "\<lambda>k. NaN" "\<lambda>k. NaN"]
    sum_phase_8[of "\<lambda>k. NaN"] FLT_MAX_less_exp_200
  by (simp add: lanes_0_200_def)

end

